theory Spec2Isabelle
  imports Main "HOL-Library.Monad_Syntax"
begin

section \<open>Python values and errors\<close>

text \<open>
  The models module of the bookmark manager declares two ORM entities, \<open>Bookmark\<close> and
  \<open>Tag\<close>, and serialises each with a \<open>dump\<close> method into a dictionary.  Exceptions
  are values of the type \<open>error\<close>; a function that can raise returns \<open>error + 'a\<close>.
\<close>

datatype error =
    TypeError
  | AttributeError
  | OverflowError
  | ValidationError
  | ConstraintViolation
  | NotFoundError

text \<open>
  The values a dumped dictionary holds.  \<open>PRef r\<close> is a reference to the entity object
  with identity \<open>r\<close>: an object stored as it is, not a serialised form of it.
\<close>

datatype pyval =
    PNone
  | PInt int
  | PStr string
  | PList "pyval list"
  | PDict "(string \<times> pyval) list"
  | PRef nat

text \<open>Python truth value testing: \<open>None\<close>, zero and empty containers are false.\<close>

fun truthy :: "pyval \<Rightarrow> bool" where
  "truthy PNone = False"
| "truthy (PInt i) = (i \<noteq> 0)"
| "truthy (PStr s) = (s \<noteq> [])"
| "truthy (PList xs) = (xs \<noteq> [])"
| "truthy (PDict kvs) = (kvs \<noteq> [])"
| "truthy (PRef r) = True"

text \<open>An argument of a call: left out by the caller, or given.\<close>

datatype 'a arg = Omitted | Given 'a

text \<open>A dictionary is an association list in insertion order; \<open>d[k]\<close> is \<open>map_of d k\<close>.\<close>

type_synonym pydict = "(string \<times> pyval) list"

definition keys_of :: "pydict \<Rightarrow> string list" where
  "keys_of d = map fst d"

text \<open>
  Modelled from the spec: \<open>filter_dict\<close> of \<open>utils/utils.py\<close>, which the models module
  imports and which is not among the sources.  The field-omission policy of the
  specification: given a base mapping and the keys considered "omit if falsy", remove any
  listed key whose value is empty (empty string, empty list, or equivalent); all other keys
  are always included, even if null.
\<close>

definition filter_dict :: "pydict \<Rightarrow> string list \<Rightarrow> pydict" where
  "filter_dict d keys = filter (\<lambda>(k, v). \<not> (k \<in> set keys \<and> \<not> truthy v)) d"

section \<open>Timestamps\<close>

text \<open>
  An aware \<open>datetime\<close> of Python's standard library: the calendar fields and the offset
  of its time zone from UTC in seconds (\<open>tzutc()\<close> is offset 0).  The arithmetic follows
  the library's proleptic Gregorian ordinals: day 1 is 0001-01-01.
\<close>

record datetime =
  year :: int
  month :: int
  day :: int
  hour :: int
  minute :: int
  second :: int
  microsecond :: int
  utcoffset :: int

definition is_leap :: "int \<Rightarrow> bool" where
  "is_leap y = (y mod 4 = 0 \<and> (y mod 100 \<noteq> 0 \<or> y mod 400 = 0))"

definition DAYS_IN_MONTH :: "int \<Rightarrow> int" where
  "DAYS_IN_MONTH m = [-1, 31, 28, 31, 30, 31, 30, 31, 31, 30, 31, 30, 31] ! nat m"

definition DAYS_BEFORE_MONTH :: "int \<Rightarrow> int" where
  "DAYS_BEFORE_MONTH m = [-1, 0, 31, 59, 90, 120, 151, 181, 212, 243, 273, 304, 334] ! nat m"

definition days_before_year :: "int \<Rightarrow> int" where
  "days_before_year y = (y - 1) * 365 + (y - 1) div 4 - (y - 1) div 100 + (y - 1) div 400"

definition days_in_month :: "int \<Rightarrow> int \<Rightarrow> int" where
  "days_in_month y m = (if m = 2 \<and> is_leap y then 29 else DAYS_IN_MONTH m)"

definition days_before_month :: "int \<Rightarrow> int \<Rightarrow> int" where
  "days_before_month y m = DAYS_BEFORE_MONTH m + (if m > 2 \<and> is_leap y then 1 else 0)"

definition ymd2ord :: "int \<Rightarrow> int \<Rightarrow> int \<Rightarrow> int" where
  "ymd2ord y m d = days_before_year y + days_before_month y m + d"

definition DI400Y :: int where
  "DI400Y = 146097"

definition DI100Y :: int where
  "DI100Y = 36524"

definition DI4Y :: int where
  "DI4Y = 1461"

definition MAXORDINAL :: int where
  "MAXORDINAL = 3652059"

text \<open>The month and day of the \<open>n\<close>-th day (from 0) of a year.\<close>

definition month_day :: "bool \<Rightarrow> int \<Rightarrow> int \<times> int" where
  "month_day leapyear n =
     (let month = (n + 50) div 32;
          preceding = DAYS_BEFORE_MONTH month + (if month > 2 \<and> leapyear then 1 else 0)
      in if preceding > n
         then (let month' = month - 1;
                   preceding' = preceding -
                     (DAYS_IN_MONTH month' + (if month' = 2 \<and> leapyear then 1 else 0))
               in (month', n - preceding' + 1))
         else (month, n - preceding + 1))"

definition ord2ymd :: "int \<Rightarrow> int \<times> int \<times> int" where
  "ord2ymd n =
     (let r = n - 1;
          n400 = r div DI400Y; r400 = r mod DI400Y;
          n100 = r400 div DI100Y; r100 = r400 mod DI100Y;
          n4 = r100 div DI4Y; r4 = r100 mod DI4Y;
          n1 = r4 div 365; r1 = r4 mod 365;
          y = n400 * 400 + 1 + n100 * 100 + n4 * 4 + n1
      in if n1 = 4 \<or> n100 = 4 then (y - 1, 12, 31)
         else (let leapyear = (n1 = 3 \<and> (n4 \<noteq> 24 \<or> n100 = 3));
                   (m, d) = month_day leapyear r1
               in (y, m, d)))"

text \<open>The field checks of the \<open>datetime\<close> constructor.\<close>

definition valid_datetime :: "datetime \<Rightarrow> bool" where
  "valid_datetime d =
     (1 \<le> year d \<and> year d \<le> 9999 \<and> 1 \<le> month d \<and> month d \<le> 12 \<and>
      1 \<le> day d \<and> day d \<le> days_in_month (year d) (month d) \<and>
      0 \<le> hour d \<and> hour d \<le> 23 \<and> 0 \<le> minute d \<and> minute d \<le> 59 \<and>
      0 \<le> second d \<and> second d \<le> 59 \<and>
      0 \<le> microsecond d \<and> microsecond d \<le> 999999 \<and>
      - 86400 < utcoffset d \<and> utcoffset d < 86400)"


text \<open>
  \<open>d.astimezone(tzutc())\<close>.  A datetime that is in UTC already is returned as it is;
  otherwise the offset is subtracted in ordinal arithmetic, which raises
  \<open>OverflowError\<close> when the day leaves the years 1 to 9999.
\<close>

definition astimezone_utc :: "datetime \<Rightarrow> error + datetime" where
  "astimezone_utc d =
     (if utcoffset d = 0 then Inr d
      else (let total = ymd2ord (year d) (month d) (day d) * 86400 + hour d * 3600 +
                        minute d * 60 + second d - utcoffset d;
                days = total div 86400;
                secs = total mod 86400
            in if 0 < days \<and> days \<le> MAXORDINAL
               then (let (y, m, dd) = ord2ymd days
                     in Inr \<lparr>year = y, month = m, day = dd, hour = secs div 3600,
                             minute = secs mod 3600 div 60, second = secs mod 60,
                             microsecond = microsecond d, utcoffset = 0\<rparr>)
               else Inl OverflowError))"

subsection \<open>Text form\<close>

definition digit_char :: "int \<Rightarrow> char" where
  "digit_char n = char_of (48 + nat n)"

text \<open>\<open>"%0kd" % n\<close> for a field \<open>0 \<le> n < 10 ^ k\<close>.\<close>

fun zpad :: "nat \<Rightarrow> int \<Rightarrow> string" where
  "zpad 0 n = []"
| "zpad (Suc k) n = zpad k (n div 10) @ [digit_char (n mod 10)]"

definition format_offset :: "int \<Rightarrow> string" where
  "format_offset off =
     (let a = \<bar>off\<bar>; hh = a div 3600; mm = a mod 3600 div 60; ss = a mod 60
      in (if off < 0 then ''-'' else ''+'') @ zpad 2 hh @ '':'' @ zpad 2 mm @
         (if ss \<noteq> 0 then '':'' @ zpad 2 ss else []))"

definition isoformat :: "datetime \<Rightarrow> string" where
  "isoformat d =
     zpad 4 (year d) @ ''-'' @ zpad 2 (month d) @ ''-'' @ zpad 2 (day d) @ ''T'' @
     zpad 2 (hour d) @ '':'' @ zpad 2 (minute d) @ '':'' @ zpad 2 (second d) @
     (if microsecond d \<noteq> 0 then ''.'' @ zpad 6 (microsecond d) else []) @
     format_offset (utcoffset d)"

definition is_digit :: "char \<Rightarrow> bool" where
  "is_digit c = (48 \<le> (of_char c :: nat) \<and> (of_char c :: nat) \<le> 57)"

definition digit_val :: "char \<Rightarrow> int" where
  "digit_val c = int (of_char c) - 48"

text \<open>The number a non-empty string of decimal digits denotes.\<close>

definition number :: "string \<Rightarrow> int option" where
  "number s =
     (if s \<noteq> [] \<and> list_all is_digit s
      then Some (foldl (\<lambda>a c. 10 * a + digit_val c) 0 s) else None)"

subsection \<open>The timestamp parser\<close>

text \<open>
  Modelled from the spec: the functions of this subsection are the parts of
  \<open>parse_iso8601\<close> of \<open>utils/datetime_utils.py\<close>, which the models module imports and
  which is not among the sources.  They read the calendar forms of ISO 8601, with or
  without an offset.
\<close>

text \<open>The seconds of an offset with the given sign, hours and minutes.\<close>

definition offset_seconds :: "char \<Rightarrow> string \<Rightarrow> string \<Rightarrow> int option" where
  "offset_seconds sign hh mm =
     (case (number hh, number mm) of
        (Some h, Some m) \<Rightarrow>
          if h \<le> 23 \<and> m \<le> 59
          then Some ((if sign = CHR ''-'' then - 1 else 1) * (h * 3600 + m * 60))
          else None
      | _ \<Rightarrow> None)"

text \<open>
  The offset suffix of a timestamp: nothing or \<open>Z\<close> for UTC, or a sign followed by
  \<open>HH:MM\<close>, \<open>HHMM\<close> or \<open>HH\<close>, in seconds.
\<close>

definition parse_offset :: "string \<Rightarrow> int option" where
  "parse_offset s =
     (if s = [] \<or> s = ''Z'' then Some 0
      else if s ! 0 \<noteq> CHR ''+'' \<and> s ! 0 \<noteq> CHR ''-'' then None
      else if length s = 6 \<and> s ! 3 = CHR '':''
      then offset_seconds (s ! 0) (take 2 (drop 1 s)) (drop 4 s)
      else if length s = 5 then offset_seconds (s ! 0) (take 2 (drop 1 s)) (drop 3 s)
      else if length s = 3 then offset_seconds (s ! 0) (drop 1 s) ''00''
      else None)"

text \<open>The characters that start an offset, and those that start a fraction.\<close>

definition starts_offset :: "char \<Rightarrow> bool" where
  "starts_offset c = (c = CHR ''Z'' \<or> c = CHR ''+'' \<or> c = CHR ''-'')"

definition starts_fraction :: "char \<Rightarrow> bool" where
  "starts_fraction c = (c = CHR ''.'' \<or> c = CHR '','')"

text \<open>
  The fraction of a second, a point or a comma and one or more digits, in microseconds:
  the digits after the sixth are dropped.
\<close>

definition parse_fraction :: "string \<Rightarrow> int option" where
  "parse_fraction s =
     (if s = [] then Some 0
      else if starts_fraction (hd s) \<and> list_all is_digit (tl s)
      then (case number (take 6 (tl s)) of
              Some f \<Rightarrow> Some (f * 10 ^ (6 - length (take 6 (tl s))))
            | None \<Rightarrow> None)
      else None)"

text \<open>The datetime of the given fields, if they pass the constructor's checks.\<close>

definition make_datetime ::
  "int \<Rightarrow> int \<Rightarrow> int \<Rightarrow> int \<Rightarrow> int \<Rightarrow> int \<Rightarrow> int \<Rightarrow> int \<Rightarrow> datetime option" where
  "make_datetime y mo dd h mi sec us tz =
     (let d = \<lparr>year = y, month = mo, day = dd, hour = h, minute = mi, second = sec,
               microsecond = us, utcoffset = tz\<rparr>
      in if valid_datetime d then Some d else None)"

text \<open>
  The form that \<open>isoformat\<close> prints, read at fixed positions:
  \<open>YYYY-MM-DDTHH:MM:SS\<close>, then an optional fraction, then an optional offset.  A
  timestamp without offset is taken as UTC.
\<close>

definition parse_extended :: "string \<Rightarrow> datetime option" where
  "parse_extended s =
     (if length s < 19 \<or> s ! 4 \<noteq> CHR ''-'' \<or> s ! 7 \<noteq> CHR ''-'' \<or> s ! 10 \<noteq> CHR ''T'' \<or>
         s ! 13 \<noteq> CHR '':'' \<or> s ! 16 \<noteq> CHR '':''
      then None
      else (let rest = drop 19 s;
                frac = (if rest \<noteq> [] \<and> starts_fraction (hd rest)
                        then hd rest # takeWhile is_digit (tl rest) else []);
                off = drop (length frac) rest
            in case (number (take 4 s), number (take 2 (drop 5 s)), number (take 2 (drop 8 s)),
                     number (take 2 (drop 11 s)), number (take 2 (drop 14 s)),
                     number (take 2 (drop 17 s)), parse_fraction frac, parse_offset off) of
                 (Some y, Some mo, Some dd, Some h, Some mi, Some sec, Some us, Some tz) \<Rightarrow>
                   make_datetime y mo dd h mi sec us tz
               | _ \<Rightarrow> None))"

text \<open>A calendar date, \<open>YYYY-MM-DD\<close> or \<open>YYYYMMDD\<close>.\<close>

definition parse_date :: "string \<Rightarrow> (int \<times> int \<times> int) option" where
  "parse_date s =
     (if length s = 10 \<and> s ! 4 = CHR ''-'' \<and> s ! 7 = CHR ''-''
      then (case (number (take 4 s), number (take 2 (drop 5 s)), number (drop 8 s)) of
              (Some y, Some mo, Some dd) \<Rightarrow> Some (y, mo, dd)
            | _ \<Rightarrow> None)
      else if length s = 8
      then (case (number (take 4 s), number (take 2 (drop 4 s)), number (drop 6 s)) of
              (Some y, Some mo, Some dd) \<Rightarrow> Some (y, mo, dd)
            | _ \<Rightarrow> None)
      else None)"

text \<open>
  A time of day: \<open>HH:MM:SS\<close>, \<open>HH:MM\<close>, \<open>HHMMSS\<close>, \<open>HHMM\<close> or \<open>HH\<close>; the parts left
  out are zero.
\<close>

definition parse_clock :: "string \<Rightarrow> (int \<times> int \<times> int) option" where
  "parse_clock s =
     (if length s = 8 \<and> s ! 2 = CHR '':'' \<and> s ! 5 = CHR '':''
      then (case (number (take 2 s), number (take 2 (drop 3 s)), number (drop 6 s)) of
              (Some h, Some mi, Some sec) \<Rightarrow> Some (h, mi, sec)
            | _ \<Rightarrow> None)
      else if length s = 5 \<and> s ! 2 = CHR '':''
      then (case (number (take 2 s), number (drop 3 s)) of
              (Some h, Some mi) \<Rightarrow> Some (h, mi, 0)
            | _ \<Rightarrow> None)
      else if length s = 6
      then (case (number (take 2 s), number (take 2 (drop 2 s)), number (drop 4 s)) of
              (Some h, Some mi, Some sec) \<Rightarrow> Some (h, mi, sec)
            | _ \<Rightarrow> None)
      else if length s = 4
      then (case (number (take 2 s), number (drop 2 s)) of
              (Some h, Some mi) \<Rightarrow> Some (h, mi, 0)
            | _ \<Rightarrow> None)
      else if length s = 2
      then (case number s of Some h \<Rightarrow> Some (h, 0, 0) | None \<Rightarrow> None)
      else None)"

text \<open>
  The other calendar forms of ISO 8601: a date alone (midnight), or a date, \<open>T\<close>, a time
  of day, an optional fraction and an optional offset, in the extended or the basic format.
\<close>

definition parse_calendar :: "string \<Rightarrow> datetime option" where
  "parse_calendar s =
     (let date_text = takeWhile (\<lambda>c. c \<noteq> CHR ''T'') s;
          rest = dropWhile (\<lambda>c. c \<noteq> CHR ''T'') s
      in case parse_date date_text of
           None \<Rightarrow> None
         | Some (y, mo, dd) \<Rightarrow>
             if rest = [] then make_datetime y mo dd 0 0 0 0 0
             else (let time_text = takeWhile (\<lambda>c. \<not> starts_offset c) (tl rest);
                       off = dropWhile (\<lambda>c. \<not> starts_offset c) (tl rest);
                       clock = takeWhile (\<lambda>c. \<not> starts_fraction c) time_text;
                       frac = dropWhile (\<lambda>c. \<not> starts_fraction c) time_text
                   in case (parse_clock clock, parse_fraction frac, parse_offset off) of
                        (Some (h, mi, sec), Some us, Some tz) \<Rightarrow>
                          make_datetime y mo dd h mi sec us tz
                      | _ \<Rightarrow> None))"

text \<open>The datetime that a timestamp string denotes, with its offset.\<close>

definition parse_fields :: "string \<Rightarrow> datetime option" where
  "parse_fields s =
     (case parse_extended s of Some d \<Rightarrow> Some d | None \<Rightarrow> parse_calendar s)"

text \<open>
  Modelled from the spec: \<open>parse_iso8601\<close> of \<open>utils/datetime_utils.py\<close>, which the
  models module imports and which is not among the sources.  The specification: parsing
  accepts an ISO-8601 string (with or without an explicit offset); the stored value is
  normalized to UTC; a timestamp string that cannot be parsed as ISO-8601 fails with a
  \<open>ValidationError\<close>.  The strings read here are the calendar dates of ISO 8601 in the
  extended and the basic format; week dates and ordinal dates are not.  The argument is
  Python's \<open>Optional[str]\<close>; \<open>None\<close> is no timestamp string and fails the same way.  The
  normalisation is \<open>astimezone\<close>, whose \<open>OverflowError\<close> is passed on.
\<close>

definition parse_iso8601 :: "string option \<Rightarrow> error + datetime" where
  "parse_iso8601 v =
     (case v of
        None \<Rightarrow> Inl ValidationError
      | Some s \<Rightarrow>
          (case parse_fields s of
             None \<Rightarrow> Inl ValidationError
           | Some d \<Rightarrow> astimezone_utc d))"

section \<open>Tag\<close>

text \<open>
  The state of a \<open>Tag\<close> instance.  The class body declares the columns \<open>id\<close> and
  \<open>name\<close> and the relationship \<open>bookmarks\<close>.  An attribute that was never assigned is
  \<open>None\<close> here: an unassigned column reads as Python's \<open>None\<close>, an unassigned relationship
  collection reads as the empty list that the ORM supplies on first access.  The related
  bookmarks are held by reference.  \<open>tag_tags\<close> is the plain instance attribute \<open>tags\<close>
  that the constructor writes.
\<close>

record tag =
  tag_id :: "int option"
  tag_name :: "string option"
  tag_bookmarks :: "nat list option"
  tag_tags :: "pyval option"

text \<open>The names the class body of \<open>Tag\<close> declares as column or relationship.\<close>

definition Tag_declared :: "string list" where
  "Tag_declared = [''id'', ''name'', ''bookmarks'']"

text \<open>
  The instance after \<open>db.Model.__init__(self)\<close> without keyword arguments: nothing is
  assigned.
\<close>

definition Tag_blank :: tag where
  "Tag_blank = \<lparr>tag_id = None, tag_name = None, tag_bookmarks = None, tag_tags = None\<rparr>"

text \<open>
  \<open>Tag.__init__(self, name, **kwargs)\<close>, called without extra keyword arguments.
  A call that does not supply \<open>name\<close> fails with Python's \<open>TypeError\<close> when the
  arguments are bound, before the body runs.
\<close>

definition Tag_init :: "string arg \<Rightarrow> error + tag" where
  "Tag_init name =
     (case name of
        Omitted \<Rightarrow> Inl TypeError
      | Given n \<Rightarrow> Inr (Tag_blank\<lparr>tag_name := Some n, tag_tags := Some (PList [])\<rparr>))"

text \<open>Reading \<open>self.bookmarks\<close>, \<open>self.id\<close> and \<open>self.name\<close>.\<close>

definition Tag_bookmarks :: "tag \<Rightarrow> nat list" where
  "Tag_bookmarks t = (case tag_bookmarks t of None \<Rightarrow> [] | Some rs \<Rightarrow> rs)"

definition py_int :: "int option \<Rightarrow> pyval" where
  "py_int v = (case v of None \<Rightarrow> PNone | Some i \<Rightarrow> PInt i)"

definition py_str :: "string option \<Rightarrow> pyval" where
  "py_str v = (case v of None \<Rightarrow> PNone | Some s \<Rightarrow> PStr s)"

text \<open>\<open>Tag.dump\<close>: \<open>filter_dict\<close> is called with the dictionary and no key.\<close>

definition Tag_dump :: "tag \<Rightarrow> pydict" where
  "Tag_dump t =
     filter_dict
       [(''id'', py_int (tag_id t)),
        (''name'', py_str (tag_name t)),
        (''bookmarks'', PList (map PRef (Tag_bookmarks t)))]
       []"

section \<open>Bookmark\<close>

text \<open>
  The state of a \<open>Bookmark\<close> instance: the columns \<open>id\<close>, \<open>title\<close>, \<open>url\<close>,
  \<open>notes\<close>, \<open>_modified\<close> and \<open>_created\<close> and the relationship \<open>tags\<close>, each
  field with the prefix \<open>bm\<close>.  \<open>None\<close> is Python's \<open>None\<close>.
\<close>

record bookmark =
  bm_id :: "int option"
  bm_title :: string
  bm_url :: string
  bm_notes :: string
  bm_tags :: "tag list"
  bm_modified :: "datetime option"
  bm_created :: "datetime option"

text \<open>
  The default values of the parameters \<open>modified\<close> and \<open>created\<close> are the expressions
  \<open>datetime.now(tzutc()).isoformat()\<close>.  Python evaluates a default once, when the
  \<open>def\<close> statement runs, that is when the module is imported, and stores the two strings
  with the function.  \<open>load_models\<close> takes the two readings of the clock at that moment.
\<close>

record models_module =
  default_modified :: string
  default_created :: string

definition load_models :: "datetime \<Rightarrow> datetime \<Rightarrow> models_module" where
  "load_models now_modified now_created =
     \<lparr>default_modified = isoformat now_modified, default_created = isoformat now_created\<rparr>"

text \<open>The arguments of a call of \<open>Bookmark(...)\<close> without extra keyword arguments.\<close>

record bookmark_args =
  a_title :: "string arg"
  a_url :: "string arg"
  a_notes :: "string arg"
  a_modified :: "string option arg"
  a_created :: "string option arg"
  a_tags :: "tag list arg"

text \<open>
  The values bound to the parameters \<open>modified\<close> and \<open>created\<close>: the stored
  default when the caller leaves the argument out, else what the caller gives, which may
  be \<open>None\<close>.
\<close>

definition bind_modified :: "models_module \<Rightarrow> bookmark_args \<Rightarrow> string option" where
  "bind_modified env a =
     (case a_modified a of Omitted \<Rightarrow> Some (default_modified env) | Given m \<Rightarrow> m)"

definition bind_created :: "models_module \<Rightarrow> bookmark_args \<Rightarrow> string option" where
  "bind_created env a =
     (case a_created a of Omitted \<Rightarrow> Some (default_created env) | Given c \<Rightarrow> c)"

text \<open>
  \<open>Bookmark.__init__\<close>.  A call that does not supply \<open>title\<close> or \<open>url\<close> fails with
  Python's \<open>TypeError\<close> when the arguments are bound.  The body assigns the fields in
  the order of the source: \<open>_modified\<close> is parsed before \<open>_created\<close>, and \<open>created\<close>
  is parsed only if it is not \<open>None\<close>.  The tags are a list of tags; the assignment
  \<open>self.tags = tags\<close> is the store of the list in the bookmark, and what the ORM does
  besides on that assignment (it adds the bookmark to the collection \<open>bookmarks\<close> of each
  tag, and it refuses a value that is no collection) is not part of the model.
\<close>

definition Bookmark_init :: "models_module \<Rightarrow> bookmark_args \<Rightarrow> error + bookmark" where
  "Bookmark_init env a =
     (case (a_title a, a_url a) of
        (Given t, Given u) \<Rightarrow>
          (let n = (case a_notes a of Omitted \<Rightarrow> [] | Given n' \<Rightarrow> n');
               tgs = (case a_tags a of Omitted \<Rightarrow> [] | Given ts \<Rightarrow> ts)
           in case parse_iso8601 (bind_modified env a) of
                Inl e \<Rightarrow> Inl e
              | Inr m \<Rightarrow>
                  (case (case bind_created env a of
                           None \<Rightarrow> Inr None
                         | Some s \<Rightarrow> map_sum id Some (parse_iso8601 (Some s))) of
                     Inl e \<Rightarrow> Inl e
                   | Inr c \<Rightarrow>
                       Inr \<lparr>bm_id = None, bm_title = t, bm_url = u, bm_notes = n,
                            bm_tags = tgs, bm_modified = Some m, bm_created = c\<rparr>))
      | _ \<Rightarrow> Inl TypeError)"


text \<open>
  The properties \<open>created\<close> and \<open>modified\<close>: each calls \<open>astimezone\<close> on the
  underlying field, which is an \<open>AttributeError\<close> when the field is \<open>None\<close>.
\<close>

definition Bookmark_created :: "bookmark \<Rightarrow> error + datetime" where
  "Bookmark_created b =
     (case bm_created b of None \<Rightarrow> Inl AttributeError | Some d \<Rightarrow> astimezone_utc d)"

definition Bookmark_modified :: "bookmark \<Rightarrow> error + datetime" where
  "Bookmark_modified b =
     (case bm_modified b of None \<Rightarrow> Inl AttributeError | Some d \<Rightarrow> astimezone_utc d)"

text \<open>
  \<open>Bookmark.dump\<close>.  The entry \<open>modified\<close> reads the property \<open>self.modified\<close> (a
  datetime is always true, so the \<open>else None\<close> is never taken) and converts it again;
  the entry \<open>created\<close> reads the field \<open>self._created\<close> and is \<open>None\<close> when the
  field is.
\<close>

definition dump_modified :: "bookmark \<Rightarrow> error + pyval" where
  "dump_modified b =
     (case Bookmark_modified b of
        Inl e \<Rightarrow> Inl e
      | Inr m \<Rightarrow>
          (case astimezone_utc m of
             Inl e \<Rightarrow> Inl e
           | Inr m' \<Rightarrow> Inr (PStr (isoformat m'))))"

definition dump_created :: "bookmark \<Rightarrow> error + pyval" where
  "dump_created b =
     (case bm_created b of
        None \<Rightarrow> Inr PNone
      | Some c \<Rightarrow>
          (case astimezone_utc c of
             Inl e \<Rightarrow> Inl e
           | Inr c' \<Rightarrow> Inr (PStr (isoformat c'))))"

definition Bookmark_dump :: "bookmark \<Rightarrow> error + pydict" where
  "Bookmark_dump b =
     (case dump_modified b of
        Inl e \<Rightarrow> Inl e
      | Inr mv \<Rightarrow>
          (case dump_created b of
             Inl e \<Rightarrow> Inl e
           | Inr cv \<Rightarrow>
               Inr (filter_dict
                      [(''id'', py_int (bm_id b)),
                       (''title'', PStr (bm_title b)),
                       (''url'', PStr (bm_url b)),
                       (''notes'', PStr (bm_notes b)),
                       (''modified'', mv),
                       (''created'', cv),
                       (''tags'', PList (map (\<lambda>t. PDict (Tag_dump t)) (bm_tags b)))]
                      [''tags'', ''notes''])))"

section \<open>Entity store\<close>

text \<open>
  Modelled from the spec: the entity store, that is the operations \<open>save\<close> and \<open>delete\<close> of
  the persistence layer over the three tables, which are not among the sources (the
  models module only declares the columns, \<open>name\<close> with \<open>unique=True\<close>).  The
  specification: \<open>save(entity)\<close> persists a new or updated entity and fails with a
  \<open>ConstraintViolation\<close> if a unique constraint (tag name) is violated; \<open>delete(entity)\<close>
  removes the entity and its association-table rows, not the related rows, and fails with
  \<open>NotFoundError\<close> if the entity no longer exists; an id is generated on insert; no
  operation is partially applied.  A tag without a name violates the declared
  \<open>nullable=False\<close> and is rejected with \<open>ConstraintViolation\<close> as well.
\<close>

record store =
  tag_table :: "(int \<times> string) list"
  bookmark_table :: "(int \<times> bookmark) list"
  association :: "(int \<times> int) list"
  tag_seq :: int
  bookmark_seq :: int

definition empty_store :: store where
  "empty_store = \<lparr>tag_table = [], bookmark_table = [], association = [], tag_seq = 1,
                  bookmark_seq = 1\<rparr>"

definition rename_row :: "int \<Rightarrow> string \<Rightarrow> int \<times> string \<Rightarrow> int \<times> string" where
  "rename_row i n row = (if fst row = i then (i, n) else row)"

definition save_tag :: "store \<Rightarrow> tag \<Rightarrow> error + store" where
  "save_tag s t =
     (case tag_name t of
        None \<Rightarrow> Inl ConstraintViolation
      | Some n \<Rightarrow>
          (case tag_id t of
             None \<Rightarrow>
               if n \<in> set (map snd (tag_table s)) then Inl ConstraintViolation
               else Inr (s\<lparr>tag_table := tag_table s @ [(tag_seq s, n)],
                           tag_seq := tag_seq s + 1\<rparr>)
           | Some i \<Rightarrow>
               if i \<notin> set (map fst (tag_table s)) then Inl NotFoundError
               else if list_ex (\<lambda>row. fst row \<noteq> i \<and> snd row = n) (tag_table s)
               then Inl ConstraintViolation
               else Inr (s\<lparr>tag_table := map (rename_row i n) (tag_table s)\<rparr>)))"

definition delete_tag :: "store \<Rightarrow> int \<Rightarrow> error + store" where
  "delete_tag s i =
     (if i \<notin> set (map fst (tag_table s)) then Inl NotFoundError
      else Inr (s\<lparr>tag_table := filter (\<lambda>row. fst row \<noteq> i) (tag_table s),
                  association := filter (\<lambda>row. snd row \<noteq> i) (association s)\<rparr>))"

text \<open>The association rows of a bookmark: one for each of its tags that has an id.\<close>

definition links :: "int \<Rightarrow> bookmark \<Rightarrow> (int \<times> int) list" where
  "links i b = concat (map (\<lambda>t. case tag_id t of None \<Rightarrow> [] | Some j \<Rightarrow> [(i, j)]) (bm_tags b))"

definition save_bookmark :: "store \<Rightarrow> bookmark \<Rightarrow> error + store" where
  "save_bookmark s b =
     (case bm_id b of
        None \<Rightarrow>
          Inr (s\<lparr>bookmark_table :=
                    bookmark_table s @ [(bookmark_seq s, b\<lparr>bm_id := Some (bookmark_seq s)\<rparr>)],
                 association := association s @ links (bookmark_seq s) b,
                 bookmark_seq := bookmark_seq s + 1\<rparr>)
      | Some i \<Rightarrow>
          if i \<notin> set (map fst (bookmark_table s)) then Inl NotFoundError
          else Inr (s\<lparr>bookmark_table :=
                         map (\<lambda>row. if fst row = i then (i, b) else row) (bookmark_table s),
                      association :=
                         filter (\<lambda>row. fst row \<noteq> i) (association s) @ links i b\<rparr>))"

definition delete_bookmark :: "store \<Rightarrow> int \<Rightarrow> error + store" where
  "delete_bookmark s i =
     (if i \<notin> set (map fst (bookmark_table s)) then Inl NotFoundError
      else Inr (s\<lparr>bookmark_table := filter (\<lambda>row. fst row \<noteq> i) (bookmark_table s),
                  association := filter (\<lambda>row. fst row \<noteq> i) (association s)\<rparr>))"

datatype operation =
    SaveTag tag
  | DeleteTag int
  | SaveBookmark bookmark
  | DeleteBookmark int

fun apply_operation :: "store \<Rightarrow> operation \<Rightarrow> error + store" where
  "apply_operation s (SaveTag t) = save_tag s t"
| "apply_operation s (DeleteTag i) = delete_tag s i"
| "apply_operation s (SaveBookmark b) = save_bookmark s b"
| "apply_operation s (DeleteBookmark i) = delete_bookmark s i"

text \<open>A sequence of operations; one that fails leaves the store as it was.\<close>

fun run :: "store \<Rightarrow> operation list \<Rightarrow> store" where
  "run s [] = s"
| "run s (op # ops) =
     (case apply_operation s op of Inl e \<Rightarrow> run s ops | Inr s' \<Rightarrow> run s' ops)"

definition tag_names_unique :: "store \<Rightarrow> bool" where
  "tag_names_unique s = distinct (map snd (tag_table s))"

text \<open>What the operations keep: names and ids are unique, and ids are below the counter.\<close>

definition store_inv :: "store \<Rightarrow> bool" where
  "store_inv s =
     (distinct (map snd (tag_table s)) \<and> distinct (map fst (tag_table s)) \<and>
      list_all (\<lambda>row. fst row < tag_seq s) (tag_table s))"

section \<open>Auxiliary notions\<close>

definition succeeds :: "error + 'a \<Rightarrow> bool" where
  "succeeds r = (case r of Inl e \<Rightarrow> False | Inr x \<Rightarrow> True)"

text \<open>
  A bookmark that \<open>dump\<close> can serialise: \<open>_modified\<close> is set, and the timestamps that
  are set convert to UTC.  The column \<open>_modified\<close> is declared \<open>nullable=False\<close>, and
  the constructor always assigns it a datetime.
\<close>

definition dumpable :: "bookmark \<Rightarrow> bool" where
  "dumpable b =
     ((case bm_modified b of None \<Rightarrow> False | Some m \<Rightarrow> succeeds (astimezone_utc m)) \<and>
      (case bm_created b of None \<Rightarrow> True | Some c \<Rightarrow> succeeds (astimezone_utc c)))"

text \<open>A reading of the clock by \<open>datetime.now(tzutc())\<close>: a valid datetime in UTC.\<close>

definition clock_reading :: "datetime \<Rightarrow> bool" where
  "clock_reading d = (valid_datetime d \<and> utcoffset d = 0)"

text \<open>The call \<open>Bookmark(title, url)\<close> with every other argument left out.\<close>

definition plain_args :: "string \<Rightarrow> string \<Rightarrow> bookmark_args" where
  "plain_args t u =
     \<lparr>a_title = Given t, a_url = Given u, a_notes = Omitted, a_modified = Omitted,
      a_created = Omitted, a_tags = Omitted\<rparr>"

text \<open>Concrete values for the examples: two clock readings and a tag.\<close>

definition clock0 :: datetime where
  "clock0 = \<lparr>year = 2024, month = 5, day = 6, hour = 7, minute = 8, second = 9,
             microsecond = 123, utcoffset = 0\<rparr>"

definition clock1 :: datetime where
  "clock1 = \<lparr>year = 2024, month = 5, day = 6, hour = 7, minute = 8, second = 9,
             microsecond = 456, utcoffset = 0\<rparr>"

definition work_tag :: tag where
  "work_tag = \<lparr>tag_id = Some 3, tag_name = Some ''work'', tag_bookmarks = Some [7],
               tag_tags = Some (PList [])\<rparr>"






section \<open>Timestamps: conversion and text form\<close>

lemma astimezone_utc_of_utc: "utcoffset d = 0 \<Longrightarrow> astimezone_utc d = Inr d"
  by (simp add: astimezone_utc_def)

lemma astimezone_utc_offset: "astimezone_utc d = Inr u \<Longrightarrow> utcoffset u = 0"
  by (auto simp: astimezone_utc_def Let_def split: if_splits prod.splits)

lemma parse_iso8601_offset: "parse_iso8601 v = Inr d \<Longrightarrow> utcoffset d = 0"
  by (auto simp: parse_iso8601_def astimezone_utc_offset split: option.splits)

lemma length_zpad: "length (zpad k n) = k"
  by (induction k arbitrary: n) auto

lemma is_digit_digit_char: "0 \<le> m \<Longrightarrow> m \<le> 9 \<Longrightarrow> is_digit (digit_char m)"
  by (simp add: is_digit_def digit_char_def)

lemma digit_val_digit_char: "0 \<le> m \<Longrightarrow> m \<le> 9 \<Longrightarrow> digit_val (digit_char m) = m"
  by (simp add: digit_val_def digit_char_def)

lemma all_digits_zpad: "0 \<le> n \<Longrightarrow> list_all is_digit (zpad k n)"
proof (induction k arbitrary: n)
  case 0
  then show ?case by simp
next
  case (Suc k)
  have "0 \<le> n div 10" using Suc.prems by simp
  moreover have "0 \<le> n mod 10" "n mod 10 \<le> 9" by simp_all
  ultimately show ?case
    using Suc.IH[of "n div 10"] by (simp add: is_digit_digit_char)
qed

lemma value_zpad:
  "0 \<le> n \<Longrightarrow> foldl (\<lambda>a c. 10 * a + digit_val c) 0 (zpad k n) = n mod 10 ^ k"
proof (induction k arbitrary: n)
  case 0
  then show ?case by simp
next
  case (Suc k)
  have d: "digit_val (digit_char (n mod 10)) = n mod 10"
    by (rule digit_val_digit_char) simp_all
  have "0 \<le> n div 10" using Suc.prems by simp
  then have "foldl (\<lambda>a c. 10 * a + digit_val c) 0 (zpad k (n div 10)) = n div 10 mod 10 ^ k"
    by (rule Suc.IH)
  then have "foldl (\<lambda>a c. 10 * a + digit_val c) 0 (zpad (Suc k) n) =
      10 * (n div 10 mod 10 ^ k) + n mod 10"
    by (simp add: d)
  also have "\<dots> = n mod 10 ^ Suc k"
    by (simp add: zmod_zmult2_eq)
  finally show ?case .
qed

lemma number_zpad: "0 \<le> n \<Longrightarrow> n < 10 ^ k \<Longrightarrow> 0 < k \<Longrightarrow> number (zpad k n) = Some n"
proof -
  assume n: "0 \<le> n" "n < 10 ^ k" and k: "0 < k"
  have "zpad k n \<noteq> []" using k length_zpad[of k n] by auto
  then show ?thesis
    using n by (simp add: number_def all_digits_zpad value_zpad)
qed

lemma format_offset_utc: "format_offset 0 = ''+00:00''"
  by code_simp

lemma seconds_split: "(s::int) div 3600 * 3600 + s mod 3600 div 60 * 60 + s mod 60 = s"
proof -
  have "s mod 3600 = s mod 3600 div 60 * 60 + s mod 3600 mod 60" by simp
  moreover have "s mod 3600 mod 60 = s mod 60"
    by (simp add: mod_mod_cancel)
  moreover have "s = s div 3600 * 3600 + s mod 3600" by simp
  ultimately show ?thesis by linarith
qed

lemma offset_parts:
  assumes "0 \<le> (a::int)" "a < 86400" "a mod 60 = 0"
  shows "0 \<le> a div 3600" "a div 3600 \<le> 23" "0 \<le> a mod 3600 div 60"
    "a mod 3600 div 60 \<le> 59" "a = a div 3600 * 3600 + a mod 3600 div 60 * 60"
proof -
  show "0 \<le> a div 3600" using assms(1) by simp
  show "a div 3600 \<le> 23" using zdiv_mono1[of a 86399 3600] assms(2) by simp
  have m: "0 \<le> a mod 3600" "a mod 3600 < 3600" by simp_all
  show "0 \<le> a mod 3600 div 60" using m(1) by simp
  show "a mod 3600 div 60 \<le> 59" using zdiv_mono1[of "a mod 3600" 3599 60] m(2) by simp
  show "a = a div 3600 * 3600 + a mod 3600 div 60 * 60"
    using seconds_split[of a] assms(3) by simp
qed

lemma format_offset_unfold:
  "format_offset off =
     (if off < 0 then CHR ''-'' else CHR ''+'') # zpad 2 (\<bar>off\<bar> div 3600) @ CHR '':'' #
       zpad 2 (\<bar>off\<bar> mod 3600 div 60) @
       (if \<bar>off\<bar> mod 60 \<noteq> 0 then CHR '':'' # zpad 2 (\<bar>off\<bar> mod 60) else [])"
  unfolding format_offset_def Let_def by (simp del: zpad.simps)

text \<open>The shape of the offset that \<open>isoformat\<close> prints for a whole number of minutes.\<close>

lemma format_offset_shape:
  assumes "- 86400 < off" "off < 86400" "off mod 60 = 0"
  shows "\<exists>sign hh mm. format_offset off = sign # zpad 2 hh @ CHR '':'' # zpad 2 mm \<and>
     (sign = CHR ''+'' \<or> sign = CHR ''-'') \<and> (sign = CHR ''-'') = (off < 0) \<and>
     0 \<le> hh \<and> hh \<le> 23 \<and> 0 \<le> mm \<and> mm \<le> 59 \<and> \<bar>off\<bar> = hh * 3600 + mm * 60"
proof -
  define a where "a = \<bar>off\<bar>"
  have a: "0 \<le> a" "a < 86400" using assms(1,2) by (simp_all add: a_def)
  have "60 dvd off" using assms(3) by (simp add: dvd_eq_mod_eq_0)
  then have "60 dvd a" by (simp add: a_def)
  then have a60: "a mod 60 = 0" by (simp add: dvd_eq_mod_eq_0)
  note p = offset_parts[OF a a60]
  define sign where "sign = (if off < 0 then CHR ''-'' else CHR ''+'')"
  have fmt: "format_offset off = sign # zpad 2 (a div 3600) @ CHR '':'' # zpad 2 (a mod 3600 div 60)"
    unfolding format_offset_unfold[of off] a_def[symmetric] sign_def[symmetric]
    using a60 by (simp del: zpad.simps)
  have sg: "sign = CHR ''+'' \<or> sign = CHR ''-''" "(sign = CHR ''-'') = (off < 0)"
    by (simp_all add: sign_def)
  have sum: "\<bar>off\<bar> = a div 3600 * 3600 + a mod 3600 div 60 * 60"
    using p(5) by (simp add: a_def)
  show ?thesis
    using fmt sg p(1-4) sum by blast
qed

lemma parse_offset_shape:
  assumes "sign = CHR ''+'' \<or> sign = CHR ''-''" "0 \<le> hh" "hh \<le> 23" "0 \<le> mm" "mm \<le> 59"
  shows "parse_offset (sign # zpad 2 hh @ CHR '':'' # zpad 2 mm) =
     Some ((if sign = CHR ''-'' then - 1 else 1) * (hh * 3600 + mm * 60))"
proof -
  have n: "number (zpad 2 hh) = Some hh" "number (zpad 2 mm) = Some mm"
    using assms by (simp_all add: number_zpad)
  let ?s = "sign # zpad 2 hh @ CHR '':'' # zpad 2 mm"
  have len: "length ?s = 6" by (simp add: length_zpad)
  have parts: "?s ! 0 = sign" "?s ! 3 = CHR '':''" "take 2 (drop 1 ?s) = zpad 2 hh"
    "drop 4 ?s = zpad 2 mm"
    by (simp_all add: nth_append length_zpad nth_Cons')
  have notZ: "?s \<noteq> ''Z''" "?s \<noteq> []" by (simp_all add: length_zpad)
  have "parse_offset ?s = offset_seconds sign (zpad 2 hh) (zpad 2 mm)"
    unfolding parse_offset_def using assms(1) by (simp only: len parts notZ) auto
  then show ?thesis
    using assms by (simp add: offset_seconds_def n)
qed

lemma parse_offset_format:
  assumes "- 86400 < off" "off < 86400" "off mod 60 = 0"
  shows "parse_offset (format_offset off) = Some off"
proof -
  obtain sign hh mm where s: "format_offset off = sign # zpad 2 hh @ CHR '':'' # zpad 2 mm"
    "sign = CHR ''+'' \<or> sign = CHR ''-''" "(sign = CHR ''-'') = (off < 0)"
    "0 \<le> hh" "hh \<le> 23" "0 \<le> mm" "mm \<le> 59" "\<bar>off\<bar> = hh * 3600 + mm * 60"
    using format_offset_shape[OF assms] by blast
  have "parse_offset (format_offset off) =
      Some ((if sign = CHR ''-'' then - 1 else 1) * (hh * 3600 + mm * 60))"
    unfolding s(1) using s(2,4-7) by (rule parse_offset_shape)
  also have "(if sign = CHR ''-'' then - 1 else 1) * (hh * 3600 + mm * 60) = off"
    using s(3,8) by (auto split: if_splits)
  finally show ?thesis .
qed

lemma format_offset_head:
  assumes "- 86400 < off" "off < 86400" "off mod 60 = 0"
  shows "format_offset off \<noteq> []" "\<not> is_digit (hd (format_offset off))"
    "\<not> starts_fraction (hd (format_offset off))"
proof -
  obtain sign hh mm where s: "format_offset off = sign # zpad 2 hh @ CHR '':'' # zpad 2 mm"
    "sign = CHR ''+'' \<or> sign = CHR ''-''"
    using format_offset_shape[OF assms] by blast
  show "format_offset off \<noteq> []" using s by simp
  show "\<not> is_digit (hd (format_offset off))"
    using s by (auto simp: is_digit_def)
  show "\<not> starts_fraction (hd (format_offset off))"
    using s by (auto simp: starts_fraction_def)
qed

lemma parse_extended_append:
  assumes "length y = 4" "length mo = 2" "length dd = 2"
    and "length h = 2" "length mi = 2" "length sec = 2"
  shows "parse_extended (y @ CHR ''-'' # mo @ CHR ''-'' # dd @ CHR ''T'' # h @ CHR '':'' # mi @
            CHR '':'' # sec @ rest) =
     (let frac = (if rest \<noteq> [] \<and> starts_fraction (hd rest)
                  then hd rest # takeWhile is_digit (tl rest) else []);
          off = drop (length frac) rest
      in case (number y, number mo, number dd, number h, number mi, number sec,
               parse_fraction frac, parse_offset off) of
           (Some y', Some mo', Some dd', Some h', Some mi', Some sec', Some us, Some tz) \<Rightarrow>
             make_datetime y' mo' dd' h' mi' sec' us tz
         | _ \<Rightarrow> None)"
  using assms by (simp add: parse_extended_def nth_append)

lemma month_cases:
  assumes "1 \<le> (m::int)" "m \<le> 12"
  shows "m = 1 \<or> m = 2 \<or> m = 3 \<or> m = 4 \<or> m = 5 \<or> m = 6 \<or> m = 7 \<or> m = 8 \<or> m = 9 \<or>
         m = 10 \<or> m = 11 \<or> m = 12"
  using assms by arith

lemma days_in_month_le: "1 \<le> m \<Longrightarrow> m \<le> 12 \<Longrightarrow> days_in_month y m \<le> 31"
  using month_cases[of m] by (auto simp: days_in_month_def DAYS_IN_MONTH_def)

lemma takeWhile_digits_zpad:
  assumes "0 \<le> n" "rest \<noteq> []" "\<not> is_digit (hd rest)"
  shows "takeWhile is_digit (zpad k n @ rest) = zpad k n"
proof -
  have "\<forall>c \<in> set (zpad k n). is_digit c"
    using all_digits_zpad[of n k] assms(1) by (simp add: list_all_iff)
  moreover have "takeWhile is_digit rest = []"
    using assms(2,3) by (cases rest) auto
  ultimately show ?thesis by (simp add: takeWhile_append2)
qed

lemma parse_fraction_zpad:
  "0 \<le> n \<Longrightarrow> n \<le> 999999 \<Longrightarrow> parse_fraction (CHR ''.'' # zpad 6 n) = Some n"
  by (simp add: parse_fraction_def starts_fraction_def length_zpad number_zpad all_digits_zpad)

lemma parse_extended_isoformat:
  assumes v: "valid_datetime d" and u: "utcoffset d mod 60 = 0"
  shows "parse_extended (isoformat d) = Some d"
proof -
  let ?fo = "format_offset (utcoffset d)"
  have off: "- 86400 < utcoffset d" "utcoffset d < 86400"
    using v by (simp_all add: valid_datetime_def)
  have po: "parse_offset ?fo = Some (utcoffset d)"
    using off u by (rule parse_offset_format)
  have fo: "?fo \<noteq> []" "\<not> is_digit (hd ?fo)" "\<not> starts_fraction (hd ?fo)"
    using format_offset_head[OF off u] by simp_all
  have dd: "day d \<le> 31"
    using v days_in_month_le[of "month d" "year d"] by (simp add: valid_datetime_def)
  have nums: "number (zpad 4 (year d)) = Some (year d)"
    "number (zpad 2 (month d)) = Some (month d)"
    "number (zpad 2 (day d)) = Some (day d)" "number (zpad 2 (hour d)) = Some (hour d)"
    "number (zpad 2 (minute d)) = Some (minute d)"
    "number (zpad 2 (second d)) = Some (second d)"
    using v dd by (simp_all add: valid_datetime_def number_zpad)
  have us: "0 \<le> microsecond d" "microsecond d \<le> 999999"
    using v by (simp_all add: valid_datetime_def)
  have rec: "\<lparr>year = year d, month = month d, day = day d, hour = hour d, minute = minute d,
       second = second d, microsecond = microsecond d, utcoffset = utcoffset d\<rparr> = d"
    by simp
  have mk: "make_datetime (year d) (month d) (day d) (hour d) (minute d) (second d)
      (microsecond d) (utcoffset d) = Some d"
    using v by (simp add: make_datetime_def rec)
  show ?thesis
  proof (cases "microsecond d = 0")
    case True
    have "parse_extended (isoformat d) =
        make_datetime (year d) (month d) (day d) (hour d) (minute d) (second d) 0 (utcoffset d)"
      using True fo
      by (simp add: isoformat_def parse_extended_append length_zpad nums parse_fraction_def po
          Let_def)
    then show ?thesis using mk True by simp
  next
    case False
    have tw: "takeWhile is_digit (zpad 6 (microsecond d) @ ?fo) = zpad 6 (microsecond d)"
      using us(1) fo(1,2) by (rule takeWhile_digits_zpad)
    have "parse_extended (isoformat d) =
        make_datetime (year d) (month d) (day d) (hour d) (minute d) (second d)
          (microsecond d) (utcoffset d)"
      using False us
      by (simp add: isoformat_def parse_extended_append length_zpad nums starts_fraction_def
          tw parse_fraction_zpad po Let_def)
    then show ?thesis using mk by simp
  qed
qed

lemma parse_fields_isoformat:
  "valid_datetime d \<Longrightarrow> utcoffset d mod 60 = 0 \<Longrightarrow> parse_fields (isoformat d) = Some d"
  by (simp add: parse_fields_def parse_extended_isoformat)

lemma parse_iso8601_isoformat_offset:
  "valid_datetime d \<Longrightarrow> utcoffset d mod 60 = 0 \<Longrightarrow>
     parse_iso8601 (Some (isoformat d)) = astimezone_utc d"
  by (simp add: parse_iso8601_def parse_fields_isoformat)

lemma parse_iso8601_isoformat:
  "clock_reading d \<Longrightarrow> parse_iso8601 (Some (isoformat d)) = Inr d"
  by (simp add: clock_reading_def parse_iso8601_isoformat_offset astimezone_utc_of_utc)






lemma parse_iso8601_offset_no_colon:
  "parse_iso8601 (Some ''2021-01-01T00:00:00-0500'') =
     Inr \<lparr>year = 2021, month = 1, day = 1, hour = 5, minute = 0, second = 0,
          microsecond = 0, utcoffset = 0\<rparr>"
  by code_simp

lemma parse_iso8601_offset_hours:
  "parse_iso8601 (Some ''2021-01-01T00:00:00-05'') =
     Inr \<lparr>year = 2021, month = 1, day = 1, hour = 5, minute = 0, second = 0,
          microsecond = 0, utcoffset = 0\<rparr>"
  by code_simp

lemma parse_iso8601_basic_format:
  "parse_iso8601 (Some ''20210101T000000Z'') =
     Inr \<lparr>year = 2021, month = 1, day = 1, hour = 0, minute = 0, second = 0,
          microsecond = 0, utcoffset = 0\<rparr>"
  by code_simp

lemma parse_iso8601_no_seconds:
  "parse_iso8601 (Some ''2021-01-01T00:00Z'') =
     Inr \<lparr>year = 2021, month = 1, day = 1, hour = 0, minute = 0, second = 0,
          microsecond = 0, utcoffset = 0\<rparr>"
  by code_simp

lemma parse_iso8601_fraction:
  "parse_iso8601 (Some ''2021-03-01T00:30:00,1234567+05:30'') =
     Inr \<lparr>year = 2021, month = 2, day = 28, hour = 19, minute = 0, second = 0,
          microsecond = 123456, utcoffset = 0\<rparr>"
  by code_simp



lemma parse_iso8601_no_month:
  "parse_iso8601 (Some ''2021-13-01T00:00:00'') = Inl ValidationError"
  by code_simp

lemma clock_reading_examples: "clock_reading clock0" "clock_reading clock1"
  by (simp_all add: clock_reading_def valid_datetime_def clock0_def clock1_def
      days_in_month_def DAYS_IN_MONTH_def)

section \<open>Ordinals and instants\<close>














section \<open>Construction and serialisation of bookmarks\<close>

lemma Bookmark_init_fields:
  assumes "Bookmark_init env a = Inr b"
  shows "\<exists>m. bm_modified b = Some m \<and> utcoffset m = 0"
    and "\<And>c. bm_created b = Some c \<Longrightarrow> utcoffset c = 0"
    and "a_title a = Given (bm_title b)" and "a_url a = Given (bm_url b)"
  using assms
  by (auto simp: Bookmark_init_def Let_def parse_iso8601_offset map_sum_def
      split: arg.splits sum.splits option.splits prod.splits)

lemma Bookmark_init_created_None:
  "Bookmark_init env a = Inr b \<Longrightarrow> a_created a = Given None \<Longrightarrow> bm_created b = None"
  by (auto simp: Bookmark_init_def Let_def bind_created_def
      split: arg.splits sum.splits option.splits prod.splits)

lemma Bookmark_init_dumpable: "Bookmark_init env a = Inr b \<Longrightarrow> dumpable b"
  using Bookmark_init_fields(1,2)[of env a b]
  by (auto simp: dumpable_def succeeds_def astimezone_utc_of_utc split: option.splits)

lemma dump_modified_dumpable:
  "dumpable b \<Longrightarrow> \<exists>m u. bm_modified b = Some m \<and> astimezone_utc m = Inr u \<and>
      dump_modified b = Inr (PStr (isoformat u))"
  by (auto simp: dumpable_def succeeds_def dump_modified_def Bookmark_modified_def
      astimezone_utc_of_utc astimezone_utc_offset split: option.splits sum.splits)

lemma dump_created_dumpable:
  "dumpable b \<Longrightarrow>
     (bm_created b = None \<and> dump_created b = Inr PNone) \<or>
     (\<exists>c u. bm_created b = Some c \<and> astimezone_utc c = Inr u \<and>
        dump_created b = Inr (PStr (isoformat u)))"
  by (auto simp: dumpable_def succeeds_def dump_created_def split: option.splits sum.splits)

lemma Bookmark_dump_dumpable:
  assumes "dumpable b"
  shows "\<exists>mv cv. dump_modified b = Inr mv \<and> dump_created b = Inr cv \<and>
     Bookmark_dump b =
       Inr (filter_dict
              [(''id'', py_int (bm_id b)), (''title'', PStr (bm_title b)),
               (''url'', PStr (bm_url b)), (''notes'', PStr (bm_notes b)),
               (''modified'', mv), (''created'', cv),
               (''tags'', PList (map (\<lambda>t. PDict (Tag_dump t)) (bm_tags b)))]
              [''tags'', ''notes''])"
proof -
  obtain mv where mv: "dump_modified b = Inr mv"
    using dump_modified_dumpable[OF assms] by blast
  obtain cv where cv: "dump_created b = Inr cv"
    using dump_created_dumpable[OF assms] by blast
  show ?thesis by (simp add: Bookmark_dump_def mv cv)
qed

lemma Bookmark_init_plain:
  assumes "clock_reading n0" "clock_reading n1"
  shows "Bookmark_init (load_models n0 n1) (plain_args t u) =
     Inr \<lparr>bm_id = None, bm_title = t, bm_url = u, bm_notes = [], bm_tags = [],
          bm_modified = Some n0, bm_created = Some n1\<rparr>"
  using assms
  by (simp add: Bookmark_init_def plain_args_def load_models_def bind_modified_def
      bind_created_def parse_iso8601_isoformat)

section \<open>Claims about Bookmark\<close>

text \<open>
  Claim C1.  For every bookmark that \<open>dump\<close> serialises, the mapping has the keys
  \<open>id\<close>, \<open>title\<close>, \<open>url\<close>, \<open>modified\<close> and \<open>created\<close>; the key \<open>notes\<close> is
  missing exactly when the notes are the empty string, the key \<open>tags\<close> is missing exactly
  when the tag list is empty, and when present \<open>tags\<close> is the list of the dumps of the
  bookmark's tags.
\<close>

theorem Bookmark_dump_keys:
  assumes "dumpable b"
  shows "\<exists>d. Bookmark_dump b = Inr d \<and>
     ''id'' \<in> set (keys_of d) \<and> ''title'' \<in> set (keys_of d) \<and> ''url'' \<in> set (keys_of d) \<and>
     ''modified'' \<in> set (keys_of d) \<and> ''created'' \<in> set (keys_of d) \<and>
     (''notes'' \<notin> set (keys_of d)) = (bm_notes b = []) \<and>
     (''tags'' \<notin> set (keys_of d)) = (bm_tags b = []) \<and>
     (bm_tags b \<noteq> [] \<longrightarrow>
        map_of d ''tags'' = Some (PList (map (\<lambda>t. PDict (Tag_dump t)) (bm_tags b))))"
proof -
  obtain mv cv where "Bookmark_dump b =
       Inr (filter_dict
              [(''id'', py_int (bm_id b)), (''title'', PStr (bm_title b)),
               (''url'', PStr (bm_url b)), (''notes'', PStr (bm_notes b)),
               (''modified'', mv), (''created'', cv),
               (''tags'', PList (map (\<lambda>t. PDict (Tag_dump t)) (bm_tags b)))]
              [''tags'', ''notes''])"
    using Bookmark_dump_dumpable[OF assms] by blast
  then show ?thesis
    by (simp add: filter_dict_def keys_of_def)
qed

theorem Bookmark_dump_keys_witness:
  "dumpable \<lparr>bm_id = Some 1, bm_title = ''t'', bm_url = ''u'', bm_notes = [],
             bm_tags = [work_tag], bm_modified = Some clock0, bm_created = None\<rparr> \<and>
   (\<exists>d. Bookmark_dump \<lparr>bm_id = Some 1, bm_title = ''t'', bm_url = ''u'', bm_notes = [],
             bm_tags = [work_tag], bm_modified = Some clock0, bm_created = None\<rparr> = Inr d \<and>
        ''id'' \<in> set (keys_of d) \<and> ''notes'' \<notin> set (keys_of d) \<and>
        ''tags'' \<in> set (keys_of d) \<and>
        map_of d ''tags'' = Some (PList [PDict (Tag_dump work_tag)]))"
proof -
  let ?b = "\<lparr>bm_id = Some 1, bm_title = ''t'', bm_url = ''u'', bm_notes = [],
             bm_tags = [work_tag], bm_modified = Some clock0, bm_created = None\<rparr>"
  have d: "dumpable ?b"
    by (simp add: dumpable_def succeeds_def astimezone_utc_def clock0_def)
  show ?thesis
    using d Bookmark_dump_keys[OF d] by auto
qed

text \<open>
  Claim C4.  A bookmark constructed with \<open>created=None\<close> has its \<open>_created\<close> field
  unset, and its dump has the key \<open>created\<close> with the value \<open>None\<close>.
\<close>

theorem created_None_is_unset_and_dumped_null:
  assumes "Bookmark_init env a = Inr b" and "a_created a = Given None"
  shows "bm_created b = None \<and>
         (\<exists>d. Bookmark_dump b = Inr d \<and> map_of d ''created'' = Some PNone)"
proof -
  have c: "bm_created b = None"
    using assms by (rule Bookmark_init_created_None)
  have dm: "dumpable b"
    using assms(1) by (rule Bookmark_init_dumpable)
  have cv: "dump_created b = Inr PNone"
    by (simp add: dump_created_def c)
  obtain mv where mv: "dump_modified b = Inr mv"
    using dump_modified_dumpable[OF dm] by blast
  show ?thesis
    by (simp add: c Bookmark_dump_def mv cv filter_dict_def)
qed

theorem created_None_is_unset_and_dumped_null_witness:
  "Bookmark_init (load_models clock0 clock1) ((plain_args ''t'' ''u'')\<lparr>a_created := Given None\<rparr>) =
     Inr \<lparr>bm_id = None, bm_title = ''t'', bm_url = ''u'', bm_notes = [], bm_tags = [],
          bm_modified = Some clock0, bm_created = None\<rparr> \<and>
   (\<exists>d. Bookmark_dump \<lparr>bm_id = None, bm_title = ''t'', bm_url = ''u'', bm_notes = [],
          bm_tags = [], bm_modified = Some clock0, bm_created = None\<rparr> = Inr d \<and>
        map_of d ''created'' = Some PNone)"
proof -
  have i: "Bookmark_init (load_models clock0 clock1)
      ((plain_args ''t'' ''u'')\<lparr>a_created := Given None\<rparr>) =
     Inr \<lparr>bm_id = None, bm_title = ''t'', bm_url = ''u'', bm_notes = [], bm_tags = [],
          bm_modified = Some clock0, bm_created = None\<rparr>"
    by (simp add: Bookmark_init_def plain_args_def load_models_def bind_modified_def
        bind_created_def parse_iso8601_isoformat clock_reading_examples)
  have g: "a_created ((plain_args ''t'' ''u'')\<lparr>a_created := Given None\<rparr>) = Given None"
    by simp
  show ?thesis
    using i created_None_is_unset_and_dumped_null[OF i g] by simp
qed

text \<open>
  Claim C6.  On a bookmark constructed with \<open>created=None\<close>, reading the property
  \<open>created\<close> raises (an \<open>AttributeError\<close>, from calling \<open>astimezone\<close> on \<open>None\<close>),
  while \<open>dump\<close>, which tests the field first, returns; the property \<open>modified\<close>
  returns as well.
\<close>

theorem created_property_raises_when_unset:
  assumes "Bookmark_init env a = Inr b" and "a_created a = Given None"
  shows "Bookmark_created b = Inl AttributeError \<and> succeeds (Bookmark_dump b) \<and>
         succeeds (Bookmark_modified b)"
proof -
  have c: "bm_created b = None"
    using assms by (rule Bookmark_init_created_None)
  have dm: "dumpable b"
    using assms(1) by (rule Bookmark_init_dumpable)
  obtain mv cv where "dump_modified b = Inr mv" "dump_created b = Inr cv"
    using Bookmark_dump_dumpable[OF dm] by blast
  then have "succeeds (Bookmark_dump b)"
    by (simp add: Bookmark_dump_def succeeds_def)
  moreover have "succeeds (Bookmark_modified b)"
    using dump_modified_dumpable[OF dm]
    by (auto simp: Bookmark_modified_def succeeds_def)
  ultimately show ?thesis
    by (simp add: Bookmark_created_def c)
qed

theorem created_property_raises_when_unset_witness:
  "Bookmark_init (load_models clock0 clock1) ((plain_args ''a'' ''b'')\<lparr>a_created := Given None\<rparr>) =
     Inr \<lparr>bm_id = None, bm_title = ''a'', bm_url = ''b'', bm_notes = [], bm_tags = [],
          bm_modified = Some clock0, bm_created = None\<rparr> \<and>
   Bookmark_created \<lparr>bm_id = None, bm_title = ''a'', bm_url = ''b'', bm_notes = [],
          bm_tags = [], bm_modified = Some clock0, bm_created = None\<rparr> = Inl AttributeError \<and>
   succeeds (Bookmark_dump \<lparr>bm_id = None, bm_title = ''a'', bm_url = ''b'', bm_notes = [],
          bm_tags = [], bm_modified = Some clock0, bm_created = None\<rparr>)"
proof -
  have i: "Bookmark_init (load_models clock0 clock1)
      ((plain_args ''a'' ''b'')\<lparr>a_created := Given None\<rparr>) =
     Inr \<lparr>bm_id = None, bm_title = ''a'', bm_url = ''b'', bm_notes = [], bm_tags = [],
          bm_modified = Some clock0, bm_created = None\<rparr>"
    by (simp add: Bookmark_init_def plain_args_def load_models_def bind_modified_def
        bind_created_def parse_iso8601_isoformat clock_reading_examples)
  have g: "a_created ((plain_args ''a'' ''b'')\<lparr>a_created := Given None\<rparr>) = Given None"
    by simp
  show ?thesis
    using i created_property_raises_when_unset[OF i g] by simp
qed

text \<open>
  Claim C9.  Whenever a bookmark is constructed, its dump holds under \<open>title\<close> and
  \<open>url\<close> the strings given to the constructor; and the call \<open>Bookmark(title, url)\<close>
  constructs a bookmark for every pair of strings, the module having been loaded.
\<close>

theorem title_url_round_trip:
  "(Bookmark_init env a = Inr b \<longrightarrow>
      (\<exists>d. Bookmark_dump b = Inr d \<and>
           a_title a = Given (bm_title b) \<and> a_url a = Given (bm_url b) \<and>
           map_of d ''title'' = Some (PStr (bm_title b)) \<and>
           map_of d ''url'' = Some (PStr (bm_url b)))) \<and>
   (clock_reading n0 \<and> clock_reading n1 \<longrightarrow>
      (\<exists>b' d. Bookmark_init (load_models n0 n1) (plain_args t u) = Inr b' \<and>
           Bookmark_dump b' = Inr d \<and>
           map_of d ''title'' = Some (PStr t) \<and> map_of d ''url'' = Some (PStr u)))"
proof -
  have general: "\<exists>d. Bookmark_dump b = Inr d \<and>
           a_title a = Given (bm_title b) \<and> a_url a = Given (bm_url b) \<and>
           map_of d ''title'' = Some (PStr (bm_title b)) \<and>
           map_of d ''url'' = Some (PStr (bm_url b))"
    if i: "Bookmark_init env a = Inr b" for env a b
  proof -
    obtain mv cv where "dump_modified b = Inr mv" "dump_created b = Inr cv"
      using Bookmark_dump_dumpable[OF Bookmark_init_dumpable[OF i]] by blast
    then show ?thesis
      using Bookmark_init_fields(3,4)[OF i]
      by (simp add: Bookmark_dump_def filter_dict_def)
  qed
  have plain: "\<exists>b' d. Bookmark_init (load_models n0 n1) (plain_args t u) = Inr b' \<and>
           Bookmark_dump b' = Inr d \<and>
           map_of d ''title'' = Some (PStr t) \<and> map_of d ''url'' = Some (PStr u)"
    if c: "clock_reading n0" "clock_reading n1"
  proof -
    let ?b = "\<lparr>bm_id = None, bm_title = t, bm_url = u, bm_notes = [], bm_tags = [],
          bm_modified = Some n0, bm_created = Some n1\<rparr>"
    have i: "Bookmark_init (load_models n0 n1) (plain_args t u) = Inr ?b"
      using c by (rule Bookmark_init_plain)
    from general[OF i] show ?thesis using i by auto
  qed
  show ?thesis using general plain by blast
qed

theorem title_url_round_trip_witness:
  "clock_reading clock0 \<and> clock_reading clock1 \<and>
   (\<exists>b d. Bookmark_init (load_models clock0 clock1) (plain_args ''Isabelle'' ''https://isabelle.in.tum.de'') = Inr b \<and>
        Bookmark_dump b = Inr d \<and>
        a_title (plain_args ''Isabelle'' ''https://isabelle.in.tum.de'') = Given (bm_title b) \<and>
        map_of d ''title'' = Some (PStr ''Isabelle'') \<and>
        map_of d ''url'' = Some (PStr ''https://isabelle.in.tum.de''))"
proof -
  let ?a = "plain_args ''Isabelle'' ''https://isabelle.in.tum.de''"
  obtain b d where bd: "Bookmark_init (load_models clock0 clock1) ?a = Inr b"
      "Bookmark_dump b = Inr d"
      "map_of d ''title'' = Some (PStr ''Isabelle'')"
      "map_of d ''url'' = Some (PStr ''https://isabelle.in.tum.de'')"
    using title_url_round_trip[of "load_models clock0 clock1" ?a undefined clock0 clock1
        "''Isabelle''" "''https://isabelle.in.tum.de''"] clock_reading_examples
    by blast
  have "a_title ?a = Given (bm_title b)"
    using title_url_round_trip[of "load_models clock0 clock1" ?a b] bd(1) by blast
  then show ?thesis
    using bd clock_reading_examples by blast
qed

text \<open>
  Claim C3, as the code has it.  The timestamps of a bookmark constructed without
  \<open>modified\<close> and \<open>created\<close> are the two readings of the clock taken when the module was
  loaded, whenever the constructor is called: the time of the call does not enter.
\<close>

theorem default_timestamps_are_import_time:
  assumes "clock_reading n0" and "clock_reading n1"
  shows "\<exists>b. Bookmark_init (load_models n0 n1) (plain_args t u) = Inr b \<and>
             bm_modified b = Some n0 \<and> bm_created b = Some n1"
  using Bookmark_init_plain[OF assms] by simp

theorem default_timestamps_are_import_time_witness:
  "clock_reading clock0 \<and> clock_reading clock1 \<and>
   (\<exists>b. Bookmark_init (load_models clock0 clock1) (plain_args ''t'' ''u'') = Inr b \<and>
        bm_modified b = Some clock0 \<and> bm_created b = Some clock1)"
  using default_timestamps_are_import_time[OF clock_reading_examples, of "''t''" "''u''"]
    clock_reading_examples by simp












section \<open>Claims about Tag\<close>

text \<open>
  Claim C10.  \<open>Tag(name)\<close> assigns the empty list to the instance attribute \<open>tags\<close>
  and the name to \<open>name\<close>; it leaves the relationship \<open>bookmarks\<close> and the column \<open>id\<close>
  unassigned; and \<open>tags\<close> is none of the columns and relationships that the class
  declares, of which \<open>bookmarks\<close> is one.
\<close>

theorem Tag_init_assigns_tags_not_bookmarks:
  "\<exists>t. Tag_init (Given n) = Inr t \<and> tag_tags t = Some (PList []) \<and> tag_name t = Some n \<and>
       tag_bookmarks t = None \<and> tag_id t = None \<and>
       ''tags'' \<notin> set Tag_declared \<and> ''bookmarks'' \<in> set Tag_declared"
  by (simp add: Tag_init_def Tag_blank_def Tag_declared_def)

section \<open>Properties of the store\<close>

lemma rename_untouched:
  "i \<notin> set (map fst T) \<Longrightarrow> map (rename_row i n) T = T"
  by (induction T) (auto simp: rename_row_def)

lemma fst_rename: "map fst (map (rename_row i n) T) = map fst T"
  by (induction T) (auto simp: rename_row_def)

lemma snd_rename_subset:
  "set (map snd (map (rename_row i n) T)) \<subseteq> insert n (set (map snd T))"
  by (induction T) (auto simp: rename_row_def)

lemma distinct_rename:
  assumes "distinct (map fst T)" "distinct (map snd T)"
    and "\<not> list_ex (\<lambda>row. fst row \<noteq> i \<and> snd row = n) T"
  shows "distinct (map snd (map (rename_row i n) T))"
  using assms
proof (induction T)
  case Nil
  then show ?case by simp
next
  case (Cons row T)
  have tail: "distinct (map snd (map (rename_row i n) T))"
    using Cons by simp
  show ?case
  proof (cases "fst row = i")
    case True
    then have "i \<notin> set (map fst T)" using Cons.prems(1) by auto
    then have same: "map (rename_row i n) T = T" by (rule rename_untouched)
    have "n \<notin> set (map snd T)"
    proof
      assume "n \<in> set (map snd T)"
      then obtain r where r: "r \<in> set T" "snd r = n" by auto
      with \<open>i \<notin> set (map fst T)\<close> have "fst r \<noteq> i" by auto
      with r Cons.prems(3) show False by (auto simp: list_ex_iff)
    qed
    moreover have "rename_row i n row = (i, n)"
      using True by (simp add: rename_row_def)
    ultimately show ?thesis
      using Cons.prems(2) by (simp add: same)
  next
    case False
    then have "snd row \<noteq> n" using Cons.prems(3) by auto
    moreover have "snd row \<notin> set (map snd T)" using Cons.prems(2) by auto
    ultimately have "snd row \<notin> set (map snd (map (rename_row i n) T))"
      using snd_rename_subset[of i n T] by blast
    moreover have "rename_row i n row = row"
      using False by (simp add: rename_row_def)
    ultimately show ?thesis
      using tail by simp
  qed
qed

lemma store_inv_empty: "store_inv empty_store"
  by (simp add: store_inv_def empty_store_def)

lemma store_inv_save_tag:
  assumes "store_inv s" "save_tag s t = Inr s'"
  shows "store_inv s'"
proof -
  obtain n where n: "tag_name t = Some n"
    using assms(2) by (cases "tag_name t") (auto simp: save_tag_def)
  show ?thesis
  proof (cases "tag_id t")
    case None
    then have fresh: "n \<notin> set (map snd (tag_table s))"
      and s': "s' = s\<lparr>tag_table := tag_table s @ [(tag_seq s, n)], tag_seq := tag_seq s + 1\<rparr>"
      using assms(2) n by (auto simp: save_tag_def split: if_splits)
    have "tag_seq s \<notin> set (map fst (tag_table s))"
      using assms(1) by (auto simp: store_inv_def list_all_iff)
    then show ?thesis
      using assms(1) fresh unfolding s' store_inv_def
      by (auto simp: list_all_iff)
  next
    case (Some i)
    then have ok: "\<not> list_ex (\<lambda>row. fst row \<noteq> i \<and> snd row = n) (tag_table s)"
      and s': "s' = s\<lparr>tag_table := map (rename_row i n) (tag_table s)\<rparr>"
      using assms(2) n by (auto simp: save_tag_def split: if_splits)
    have "distinct (map snd (map (rename_row i n) (tag_table s)))"
      using assms(1) ok by (intro distinct_rename) (simp_all add: store_inv_def)
    moreover have "list_all (\<lambda>row. fst row < tag_seq s) (map (rename_row i n) (tag_table s))"
      using assms(1) fst_rename[of i n "tag_table s"]
      by (simp add: store_inv_def list_all_iff)
    ultimately show ?thesis
      using assms(1) unfolding s' store_inv_def
      by (simp add: fst_rename del: map_map)
  qed
qed

lemma store_inv_delete_tag:
  assumes "store_inv s" "delete_tag s i = Inr s'"
  shows "store_inv s'"
proof -
  have s': "s' = s\<lparr>tag_table := filter (\<lambda>row. fst row \<noteq> i) (tag_table s),
                  association := filter (\<lambda>row. snd row \<noteq> i) (association s)\<rparr>"
    using assms(2) by (auto simp: delete_tag_def split: if_splits)
  show ?thesis
    using assms(1) unfolding s' store_inv_def
    by (auto simp: distinct_map_filter list_all_iff)
qed

lemma store_inv_bookmark:
  assumes "store_inv s"
  shows "save_bookmark s b = Inr s' \<Longrightarrow> store_inv s'"
    and "delete_bookmark s i = Inr s' \<Longrightarrow> store_inv s'"
  using assms
  by (auto simp: save_bookmark_def delete_bookmark_def store_inv_def
      split: option.splits if_splits)

lemma store_inv_apply:
  "store_inv s \<Longrightarrow> apply_operation s op = Inr s' \<Longrightarrow> store_inv s'"
  by (cases op)
    (auto intro: store_inv_save_tag store_inv_delete_tag store_inv_bookmark)

lemma store_inv_run: "store_inv s \<Longrightarrow> store_inv (run s ops)"
  by (induction ops arbitrary: s) (auto split: sum.splits intro: store_inv_apply)

text \<open>
  Claim C8.  In every store, saving a new tag whose name a persisted tag has, or giving a
  persisted tag the name of another one, fails with \<open>ConstraintViolation\<close>; every
  operation that succeeds keeps the tag names unique; and after any sequence of
  operations from the empty store no two persisted tags share a name.
\<close>

theorem tag_names_stay_unique:
  "(tag_name t = Some n \<and> tag_id t = None \<and> n \<in> set (map snd (tag_table s)) \<longrightarrow>
      save_tag s t = Inl ConstraintViolation) \<and>
   (tag_name t = Some n \<and> tag_id t = Some i \<and> i \<in> set (map fst (tag_table s)) \<and>
      (j, n) \<in> set (tag_table s) \<and> j \<noteq> i \<longrightarrow>
      save_tag s t = Inl ConstraintViolation) \<and>
   (store_inv s \<and> apply_operation s op = Inr s' \<longrightarrow> store_inv s' \<and> tag_names_unique s') \<and>
   tag_names_unique (run empty_store ops)"
proof -
  have new: "save_tag s t = Inl ConstraintViolation"
    if "tag_name t = Some n \<and> tag_id t = None \<and> n \<in> set (map snd (tag_table s))"
    using that by (simp add: save_tag_def)
  have upd: "save_tag s t = Inl ConstraintViolation"
    if "tag_name t = Some n \<and> tag_id t = Some i \<and> i \<in> set (map fst (tag_table s)) \<and>
      (j, n) \<in> set (tag_table s) \<and> j \<noteq> i"
  proof -
    have "list_ex (\<lambda>row. fst row \<noteq> i \<and> snd row = n) (tag_table s)"
      unfolding list_ex_iff using that by (intro bexI[of _ "(j, n)"]) auto
    then show ?thesis
      using that by (simp add: save_tag_def)
  qed
  have step: "store_inv s' \<and> tag_names_unique s'"
    if "store_inv s \<and> apply_operation s op = Inr s'"
    using that store_inv_apply[of s op s']
    by (auto simp: store_inv_def tag_names_unique_def)
  have "store_inv (run empty_store ops)"
    by (rule store_inv_run[OF store_inv_empty])
  then have "tag_names_unique (run empty_store ops)"
    by (simp add: store_inv_def tag_names_unique_def)
  then show ?thesis
    using new upd step by blast
qed

theorem tag_names_stay_unique_witness:
  "run empty_store [SaveTag \<lparr>tag_id = None, tag_name = Some ''work'', tag_bookmarks = None,
                            tag_tags = Some (PList [])\<rparr>] =
     \<lparr>tag_table = [(1, ''work'')], bookmark_table = [], association = [], tag_seq = 2,
      bookmark_seq = 1\<rparr> \<and>
   store_inv \<lparr>tag_table = [(1, ''work'')], bookmark_table = [], association = [],
      tag_seq = 2, bookmark_seq = 1\<rparr> \<and>
   save_tag \<lparr>tag_table = [(1, ''work'')], bookmark_table = [], association = [], tag_seq = 2,
      bookmark_seq = 1\<rparr>
     \<lparr>tag_id = None, tag_name = Some ''work'', tag_bookmarks = None,
      tag_tags = Some (PList [])\<rparr> = Inl ConstraintViolation \<and>
   tag_names_unique (run empty_store
     [SaveTag \<lparr>tag_id = None, tag_name = Some ''work'', tag_bookmarks = None,
               tag_tags = Some (PList [])\<rparr>,
      SaveTag \<lparr>tag_id = None, tag_name = Some ''work'', tag_bookmarks = None,
               tag_tags = Some (PList [])\<rparr>,
      SaveTag \<lparr>tag_id = None, tag_name = Some ''home'', tag_bookmarks = None,
               tag_tags = Some (PList [])\<rparr>])"
proof -
  let ?w = "\<lparr>tag_id = None, tag_name = Some ''work'', tag_bookmarks = None,
             tag_tags = Some (PList [])\<rparr>"
  let ?h = "\<lparr>tag_id = None, tag_name = Some ''home'', tag_bookmarks = None,
             tag_tags = Some (PList [])\<rparr>"
  let ?s = "\<lparr>tag_table = [(1, ''work'')], bookmark_table = [], association = [], tag_seq = 2,
      bookmark_seq = 1\<rparr>"
  have r: "run empty_store [SaveTag ?w] = ?s"
    by (simp add: empty_store_def save_tag_def)
  have i: "store_inv ?s"
    by (simp add: store_inv_def)
  have c: "save_tag ?s ?w = Inl ConstraintViolation"
    using tag_names_stay_unique[of ?w "''work''" ?s] by simp
  have u: "tag_names_unique (run empty_store [SaveTag ?w, SaveTag ?w, SaveTag ?h])"
    using tag_names_stay_unique[of _ _ _ _ _ _ _ "[SaveTag ?w, SaveTag ?w, SaveTag ?h]"]
    by blast
  show ?thesis using r i c u by simp
qed

end
